theory Spec2Isabelle
  imports Main
begin

section \<open>Python values\<close>

text \<open>
  The handlers of \<^verbatim>\<open>ChannelInnerTask\<close> move decoded JSON-RPC data around: the
  transaction mapping \<^verbatim>\<open>kwargs\<close>, the entries of the transaction queue, and whatever
  the block store hands back. These are Python objects built from \<^verbatim>\<open>None\<close>,
  booleans, integers, strings, lists and dictionaries with string keys. A dictionary is
  an association list in insertion order, which is the order \<^verbatim>\<open>json.dumps\<close> writes.
  A string is a list of code points below 256. Floating point numbers are left out.
\<close>

datatype pyval =
    PNone
  | PBool bool
  | PInt int
  | PStr string
  | PList "pyval list"
  | PDict "(string \<times> pyval) list"

datatype py_error = KeyError | TypeError

text \<open>Truth value testing, as \<^verbatim>\<open>if x:\<close> and \<^verbatim>\<open>and\<close> do it.\<close>

fun truthy :: "pyval \<Rightarrow> bool" where
  "truthy PNone = False"
| "truthy (PBool b) = b"
| "truthy (PInt i) = (i \<noteq> 0)"
| "truthy (PStr s) = (s \<noteq> [])"
| "truthy (PList xs) = (xs \<noteq> [])"
| "truthy (PDict d) = (d \<noteq> [])"

text \<open>
  Subscription with a string key, \<^verbatim>\<open>x['key']\<close>: a dictionary raises
  \<^verbatim>\<open>KeyError\<close> when the key is missing; every other value of \<^typ>\<open>pyval\<close> raises
  \<^verbatim>\<open>TypeError\<close> (\<^verbatim>\<open>None\<close>, booleans and integers are not subscriptable, strings
  and lists take integer indices only).
\<close>

fun py_getitem :: "pyval \<Rightarrow> string \<Rightarrow> py_error + pyval" where
  "py_getitem (PDict d) k = (case map_of d k of None \<Rightarrow> Inl KeyError | Some v \<Rightarrow> Inr v)"
| "py_getitem PNone k = Inl TypeError"
| "py_getitem (PBool b) k = Inl TypeError"
| "py_getitem (PInt i) k = Inl TypeError"
| "py_getitem (PStr s) k = Inl TypeError"
| "py_getitem (PList xs) k = Inl TypeError"

text \<open>Item assignment \<^verbatim>\<open>d[k] = v\<close>: an existing key keeps its place, a new key goes last.\<close>

fun dict_set :: "(string \<times> pyval) list \<Rightarrow> string \<Rightarrow> pyval \<Rightarrow> (string \<times> pyval) list" where
  "dict_set [] k v = [(k, v)]"
| "dict_set ((k', v') # d) k v = (if k' = k then (k, v) # d else (k', v') # dict_set d k v)"

text \<open>
  Equality of two dictionaries, \<^verbatim>\<open>d1 == d2\<close>: the same keys with the same values,
  whatever the insertion order. Keys of a dictionary are distinct.
\<close>

definition py_dict_eq :: "(string \<times> pyval) list \<Rightarrow> (string \<times> pyval) list \<Rightarrow> bool" where
  "py_dict_eq d1 d2 \<longleftrightarrow>
     distinct (map fst d1) \<and> distinct (map fst d2) \<and> set d1 = set d2"

section \<open>\<^verbatim>\<open>json.dumps\<close> and \<^verbatim>\<open>str.encode\<close>\<close>

text \<open>
  \<^verbatim>\<open>json.dumps(obj)\<close> with its default arguments: \<^verbatim>\<open>ensure_ascii=True\<close>, the
  separators \<^verbatim>\<open>', '\<close> and \<^verbatim>\<open>': '\<close>, and no \<^verbatim>\<open>sort_keys\<close>, so a dictionary is
  written in insertion order.
\<close>

definition hex_digit :: "nat \<Rightarrow> char" where
  "hex_digit n = ''0123456789abcdef'' ! (n mod 16)"

definition escape_char :: "char \<Rightarrow> string" where
  "escape_char c =
     (if c = CHR 0x5C then [CHR 0x5C, CHR 0x5C]
      else if c = CHR 0x22 then [CHR 0x5C, CHR 0x22]
      else if c = CHR 0x08 then [CHR 0x5C, CHR ''b'']
      else if c = CHR 0x0C then [CHR 0x5C, CHR ''f'']
      else if c = CHR 0x0A then [CHR 0x5C, CHR ''n'']
      else if c = CHR 0x0D then [CHR 0x5C, CHR ''r'']
      else if c = CHR 0x09 then [CHR 0x5C, CHR ''t'']
      else if 32 \<le> (of_char c :: nat) \<and> (of_char c :: nat) \<le> 126 then [c]
      else [CHR 0x5C, CHR ''u'', CHR ''0'', CHR ''0'',
            hex_digit ((of_char c :: nat) div 16), hex_digit (of_char c :: nat)])"

definition dumps_str :: "string \<Rightarrow> string" where
  "dumps_str s = [CHR 0x22] @ concat (map escape_char s) @ [CHR 0x22]"

text \<open>The decimal digits of a natural number, as \<^verbatim>\<open>int.__repr__\<close> writes them.\<close>

function str_nat :: "nat \<Rightarrow> string" where
  "str_nat n =
     (if n < 10 then [''0123456789'' ! n]
      else str_nat (n div 10) @ [''0123456789'' ! (n mod 10)])"
  by pat_completeness auto
termination
  by (relation "measure id") auto

declare str_nat.simps [simp del]

definition dumps_int :: "int \<Rightarrow> string" where
  "dumps_int i = (if i < 0 then CHR ''-'' # str_nat (nat (- i)) else str_nat (nat i))"

fun join :: "string \<Rightarrow> string list \<Rightarrow> string" where
  "join sep [] = []"
| "join sep [x] = x"
| "join sep (x # y # ys) = x @ sep @ join sep (y # ys)"

fun json_dumps :: "pyval \<Rightarrow> string"
  and dumps_items :: "pyval list \<Rightarrow> string list"
  and dumps_pairs :: "(string \<times> pyval) list \<Rightarrow> string list" where
  "json_dumps PNone = ''null''"
| "json_dumps (PBool b) = (if b then ''true'' else ''false'')"
| "json_dumps (PInt i) = dumps_int i"
| "json_dumps (PStr s) = dumps_str s"
| "json_dumps (PList xs) = ''['' @ join '', '' (dumps_items xs) @ '']''"
| "json_dumps (PDict d) = ''{'' @ join '', '' (dumps_pairs d) @ ''}''"
| "dumps_items [] = []"
| "dumps_items (x # xs) = json_dumps x # dumps_items xs"
| "dumps_pairs [] = []"
| "dumps_pairs ((k, v) # d) = (dumps_str k @ '': '' @ json_dumps v) # dumps_pairs d"

text \<open>
  \<^verbatim>\<open>str.encode()\<close>: UTF-8. A code point below 128 is one byte, one from 128 to 255 is
  two bytes.
\<close>

definition encode_char :: "char \<Rightarrow> string" where
  "encode_char c =
     (let n = (of_char c :: nat)
      in if n < 128 then [c] else [char_of (192 + n div 64), char_of (128 + n mod 64)])"

definition encode :: "string \<Rightarrow> string" where
  "encode s = concat (map encode_char s)"

section \<open>The collaborators of the channel task\<close>

text \<open>
  Modelled from the spec: \<^verbatim>\<open>message_code.Response\<close> is imported from
  \<^verbatim>\<open>tbears.block_manager\<close> and its table of values is missing. The spec (section 6)
  lists six status kinds, each a fixed integer. The table is a parameter of every
  handler; what a theorem needs of the values is a hypothesis of that theorem.
\<close>

record Response =
  success :: int
  fail_tx_invalid_duplicated_hash :: int
  fail_tx_not_invoked :: int
  fail_tx_invalid_hash_not_match :: int
  fail_wrong_block_hash :: int
  fail_wrong_block_height :: int

text \<open>
  Modelled from the spec: the block store \<^verbatim>\<open>block_manager._block\<close> is missing. The
  spec (sections 3 and 6) gives its interface: read-only lookups that return an object or
  \<^verbatim>\<open>None\<close>. Each lookup is a function into \<^typ>\<open>pyval\<close>, with \<^const>\<open>PNone\<close> for
  \<^verbatim>\<open>None\<close>; nothing is assumed about what a lookup returns.
\<close>

record Block =
  get_transaction :: "string \<Rightarrow> pyval"
  get_txresult :: "string \<Rightarrow> pyval"
  get_last_block :: pyval
  get_block_by_hash :: "string \<Rightarrow> pyval"
  get_block_by_height :: "int \<Rightarrow> pyval"

record BlockManager =
  block :: Block
  tx_queue :: "pyval list"

text \<open>
  Modelled from the spec: \<^verbatim>\<open>BlockManager.add_tx\<close> is missing. The spec (section 4.2,
  step 4) says that the entry holding the hash and the transaction is appended to the
  pending queue. Line 57 of the source reads the hash of an entry as
  \<^verbatim>\<open>tx['txHash']\<close>, so the entry is the transaction mapping with the key
  \<^verbatim>\<open>'txHash'\<close> set to the hash.
\<close>

definition add_tx :: "BlockManager \<Rightarrow> string \<Rightarrow> (string \<times> pyval) list \<Rightarrow> BlockManager" where
  "add_tx bm tx_hash tx =
     bm\<lparr>tx_queue := tx_queue bm @ [PDict (dict_set tx ''txHash'' (PStr tx_hash))]\<rparr>"

section \<open>\<^verbatim>\<open>ChannelInnerTask\<close>\<close>

text \<open>
  The state of the task is what \<^verbatim>\<open>__init__\<close> stores. The calls of \<^verbatim>\<open>Logger.debug\<close>
  and the decorator \<^verbatim>\<open>message_queue_task\<close> contribute nothing to a response or to the
  state and are left out. No handler awaits anything, so a handler runs from its first
  statement to its \<^verbatim>\<open>return\<close> without another one in between.
\<close>

record ChannelInnerTask =
  conf :: pyval
  block_manager :: BlockManager
  confirmed_tx_list :: "pyval list"

text \<open>\<^verbatim>\<open>__init__\<close> (lines 35 to 38).\<close>

definition init :: "pyval \<Rightarrow> BlockManager \<Rightarrow> ChannelInnerTask" where
  "init c bm = \<lparr>conf = c, block_manager = bm, confirmed_tx_list = []\<rparr>"

text \<open>
  Line 52. \<^verbatim>\<open>create_hash\<close> is imported from \<^verbatim>\<open>tbears.util\<close> and is missing: it is
  the parameter \<open>create_hash\<close>, a function from bytes to a string.
\<close>

definition generate_tx_hash :: "(string \<Rightarrow> string) \<Rightarrow> (string \<times> pyval) list \<Rightarrow> string" where
  "generate_tx_hash create_hash kwargs = create_hash (encode (json_dumps (PDict kwargs)))"

text \<open>
  The loop of lines 55 to 58. It visits every entry of the queue, also after a match, and
  stops only when an entry cannot be subscripted with \<^verbatim>\<open>'txHash'\<close>. The comparison
  \<^verbatim>\<open>tx_hash == tx['txHash']\<close> of a string with an object holds exactly when the
  object is that string.
\<close>

fun check_duplication :: "string \<Rightarrow> pyval list \<Rightarrow> bool \<Rightarrow> py_error + bool" where
  "check_duplication tx_hash [] duplicated_tx = Inr duplicated_tx"
| "check_duplication tx_hash (tx # q) duplicated_tx =
     (case py_getitem tx ''txHash'' of
        Inl e \<Rightarrow> Inl e
      | Inr h \<Rightarrow> check_duplication tx_hash q (if PStr tx_hash = h then True else duplicated_tx))"

text \<open>
  \<^verbatim>\<open>create_icx_tx\<close> (lines 41 to 69). The result is the raised exception, or the returned
  pair together with the task after the call. The second check of line 59 is the truth
  value of \<^verbatim>\<open>get_transaction\<close>, consulted only when the scan found nothing.
\<close>

definition create_icx_tx ::
  "(string \<Rightarrow> string) \<Rightarrow> Response \<Rightarrow> ChannelInnerTask \<Rightarrow> (string \<times> pyval) list
     \<Rightarrow> py_error + ((int \<times> string option) \<times> ChannelInnerTask)" where
  "create_icx_tx create_hash rc self kwargs =
     (let bm = block_manager self;
          tx_hash = generate_tx_hash create_hash kwargs
      in case check_duplication tx_hash (tx_queue bm) False of
           Inl e \<Rightarrow> Inl e
         | Inr duplicated_tx \<Rightarrow>
             if (if \<not> duplicated_tx \<and> truthy (get_transaction (block bm) tx_hash)
                 then True else duplicated_tx)
             then Inr ((fail_tx_invalid_duplicated_hash rc, None), self)
             else Inr ((success rc, Some (''0x'' @ tx_hash)),
                       self\<lparr>block_manager := add_tx bm tx_hash kwargs\<rparr>))"

text \<open>\<^verbatim>\<open>get_invoke_result\<close> (lines 72 to 85).\<close>

definition get_invoke_result :: "Response \<Rightarrow> ChannelInnerTask \<Rightarrow> string \<Rightarrow> py_error + (int \<times> pyval)" where
  "get_invoke_result rc self tx_hash =
     (let tx_data_json = get_txresult (block (block_manager self)) tx_hash
      in if tx_data_json = PNone then Inr (fail_tx_not_invoked rc, PDict [])
         else Inr (success rc, tx_data_json))"

text \<open>\<^verbatim>\<open>get_tx_info\<close> (lines 88 to 101).\<close>

definition get_tx_info :: "Response \<Rightarrow> ChannelInnerTask \<Rightarrow> string \<Rightarrow> py_error + (int \<times> pyval)" where
  "get_tx_info rc self tx_hash =
     (let tx_data_json = get_transaction (block (block_manager self)) tx_hash
      in if tx_data_json = PNone then Inr (fail_tx_invalid_hash_not_match rc, PDict [])
         else Inr (success rc, tx_data_json))"

text \<open>
  \<^verbatim>\<open>get_block\<close>, lines 136 to 145: the response built from the fetched object and from
  \<^verbatim>\<open>fail_response_code\<close>, which is \<^verbatim>\<open>None\<close> or an integer and is tested for its
  truth value.
\<close>

definition block_response ::
  "Response \<Rightarrow> string \<Rightarrow> pyval \<Rightarrow> int option \<Rightarrow> py_error + (int \<times> pyval \<times> string \<times> pyval list)" where
  "block_response rc block_hash block_data_json fail_response_code =
     (case (case fail_response_code of None \<Rightarrow> None | Some c \<Rightarrow> if c \<noteq> 0 then Some c else None) of
        Some c \<Rightarrow> Inr (c, PStr block_hash, [], [])
      | None \<Rightarrow>
          (case py_getitem block_data_json ''block_hash'' of
             Inl e \<Rightarrow> Inl e
           | Inr block_hash' \<Rightarrow> Inr (success rc, block_hash', json_dumps block_data_json, [])))"

text \<open>\<^verbatim>\<open>get_block\<close> (lines 104 to 145); lines 120 to 134 choose the lookup.\<close>

definition get_block ::
  "Response \<Rightarrow> ChannelInnerTask \<Rightarrow> int \<Rightarrow> string \<Rightarrow> string \<Rightarrow> string
     \<Rightarrow> py_error + (int \<times> pyval \<times> string \<times> pyval list)" where
  "get_block rc self block_height block_hash block_data_filter tx_data_filter =
     (let b = block (block_manager self)
      in if block_hash = [] \<and> block_height = - 1 then
           (let block_data_json = get_last_block b
            in block_response rc block_hash block_data_json
                 (if block_data_json = PNone then Some (fail_wrong_block_hash rc) else None))
         else if block_hash \<noteq> [] then
           (let block_data_json = get_block_by_hash b block_hash
            in block_response rc block_hash block_data_json
                 (if block_data_json = PNone then Some (fail_wrong_block_hash rc) else None))
         else
           (let block_data_json = get_block_by_height b block_height
            in block_response rc block_hash block_data_json
                 (if block_data_json = PNone then Some (fail_wrong_block_height rc) else None)))"

section \<open>Sequences of requests\<close>

text \<open>
  The four messages the task handles. A handler that raises leaves the task as it was:
  the only assignment to shared state is the call of \<^verbatim>\<open>add_tx\<close> on line 66, after the
  last statement that can raise.
\<close>

datatype request =
    CreateIcxTx "(string \<times> pyval) list"
  | GetInvokeResult string
  | GetTxInfo string
  | GetBlock int string string string

fun handle :: "(string \<Rightarrow> string) \<Rightarrow> Response \<Rightarrow> ChannelInnerTask \<Rightarrow> request \<Rightarrow> ChannelInnerTask" where
  "handle create_hash rc self (CreateIcxTx kwargs) =
     (case create_icx_tx create_hash rc self kwargs of Inl e \<Rightarrow> self | Inr (r, self') \<Rightarrow> self')"
| "handle create_hash rc self (GetInvokeResult tx_hash) = self"
| "handle create_hash rc self (GetTxInfo tx_hash) = self"
| "handle create_hash rc self (GetBlock block_height block_hash block_data_filter tx_data_filter) = self"

fun run :: "(string \<Rightarrow> string) \<Rightarrow> Response \<Rightarrow> ChannelInnerTask \<Rightarrow> request list \<Rightarrow> ChannelInnerTask" where
  "run create_hash rc self [] = self"
| "run create_hash rc self (r # rs) = run create_hash rc (handle create_hash rc self r) rs"

section \<open>Notions of the specification\<close>

text \<open>
  The specification speaks of the collaborator's \<^verbatim>\<open>has_committed\<close>. The source has no
  such call: what line 59 asks of the block store is the truth value of
  \<^verbatim>\<open>get_transaction\<close>.
\<close>

definition has_committed :: "Block \<Rightarrow> string \<Rightarrow> bool" where
  "has_committed b tx_hash \<longleftrightarrow> truthy (get_transaction b tx_hash)"

text \<open>The hash of each pending entry, read the way line 57 reads it.\<close>

definition pending_hashes :: "ChannelInnerTask \<Rightarrow> (py_error + pyval) list" where
  "pending_hashes self = map (\<lambda>tx. py_getitem tx ''txHash'') (tx_queue (block_manager self))"

fun uncommitted :: "Block \<Rightarrow> py_error + pyval \<Rightarrow> bool" where
  "uncommitted b (Inr (PStr h)) = (\<not> has_committed b h)"
| "uncommitted b x = False"

text \<open>
  The invariant of the pending queue (specification, section 3): every entry carries a
  hash, no two entries carry the same one, and none of them is committed.
\<close>

definition queue_inv :: "ChannelInnerTask \<Rightarrow> bool" where
  "queue_inv self \<longleftrightarrow>
     distinct (pending_hashes self) \<and>
     list_all (uncommitted (block (block_manager self))) (pending_hashes self)"

text \<open>
  The selection policy of \<^verbatim>\<open>get_block\<close> in the words of the specification (section
  4.2): latest when the hash is empty and the height is the sentinel \<open>-1\<close>, else by hash
  when the hash is not empty, else by height; and the status of a lookup that finds nothing.
\<close>

datatype selection = Latest | ByHash | ByHeight

definition spec_selection :: "int \<Rightarrow> string \<Rightarrow> selection" where
  "spec_selection height hash =
     (if hash = [] \<and> height = - 1 then Latest else if hash \<noteq> [] then ByHash else ByHeight)"

definition spec_fetch :: "Block \<Rightarrow> int \<Rightarrow> string \<Rightarrow> pyval" where
  "spec_fetch b height hash =
     (case spec_selection height hash of
        Latest \<Rightarrow> get_last_block b
      | ByHash \<Rightarrow> get_block_by_hash b hash
      | ByHeight \<Rightarrow> get_block_by_height b height)"

definition spec_fail_code :: "Response \<Rightarrow> selection \<Rightarrow> int" where
  "spec_fail_code rc sel =
     (case sel of
        Latest \<Rightarrow> fail_wrong_block_hash rc
      | ByHash \<Rightarrow> fail_wrong_block_hash rc
      | ByHeight \<Rightarrow> fail_wrong_block_height rc)"

section \<open>Sample collaborators\<close>

text \<open>
  Concrete collaborators for the closed instances below: a table of distinct status
  values, a block store with one committed transaction \<open>c0\<close>, a latest block, one block
  under the hash \<open>0xabc\<close> and one at height 5.
\<close>

abbreviation sample_codes :: Response where
  "sample_codes \<equiv>
     \<lparr>success = 0, fail_tx_invalid_duplicated_hash = - 1, fail_tx_not_invoked = - 2,
      fail_tx_invalid_hash_not_match = - 3, fail_wrong_block_hash = - 4,
      fail_wrong_block_height = - 5\<rparr>"

abbreviation sample_block :: Block where
  "sample_block \<equiv>
     \<lparr>get_transaction = (\<lambda>h. if h = ''c0'' then PDict [(''from'', PStr ''hx1'')] else PNone),
      get_txresult = (\<lambda>h. if h = ''c0'' then PDict [(''status'', PStr ''0x1'')] else PNone),
      get_last_block = PDict [(''block_hash'', PStr ''b9''), (''height'', PInt 9)],
      get_block_by_hash =
        (\<lambda>h. if h = ''0xabc'' then PDict [(''block_hash'', PStr ''abc''), (''height'', PInt 7)]
             else PNone),
      get_block_by_height =
        (\<lambda>n. if n = 5 then PDict [(''block_hash'', PStr ''b5''), (''height'', PInt 5)]
             else PNone)\<rparr>"

abbreviation sample_task :: ChannelInnerTask where
  "sample_task \<equiv> init PNone \<lparr>block = sample_block, tx_queue = []\<rparr>"

section \<open>Lemmas on the model\<close>

lemma uncommitted_iff:
  "uncommitted b x \<longleftrightarrow> (\<exists>h. x = Inr (PStr h) \<and> \<not> has_committed b h)"
  by (cases "(b, x)" rule: uncommitted.cases) auto

lemma check_duplication_scan:
  "\<forall>tx \<in> set q. \<exists>h. py_getitem tx ''txHash'' = Inr h \<Longrightarrow>
   check_duplication tx_hash q d =
     Inr (d \<or> Inr (PStr tx_hash) \<in> set (map (\<lambda>tx. py_getitem tx ''txHash'') q))"
  by (induction q arbitrary: d) auto

lemma map_of_dict_set: "map_of (dict_set d k v) k = Some v"
  by (induction d) auto

lemma create_icx_tx_cases:
  assumes "\<forall>tx \<in> set (tx_queue (block_manager self)). \<exists>h. py_getitem tx ''txHash'' = Inr h"
  shows "create_icx_tx create_hash rc self kwargs =
     (let tx_hash = generate_tx_hash create_hash kwargs
      in if Inr (PStr tx_hash) \<in> set (pending_hashes self)
            \<or> has_committed (block (block_manager self)) tx_hash
         then Inr ((fail_tx_invalid_duplicated_hash rc, None), self)
         else Inr ((success rc, Some (''0x'' @ tx_hash)),
                self\<lparr>block_manager := add_tx (block_manager self) tx_hash kwargs\<rparr>))"
  using check_duplication_scan [OF assms]
  by (simp add: create_icx_tx_def Let_def pending_hashes_def has_committed_def)

lemma queue_inv_wf:
  "queue_inv self \<Longrightarrow>
   \<forall>tx \<in> set (tx_queue (block_manager self)). \<exists>h. py_getitem tx ''txHash'' = Inr h"
  by (auto simp: queue_inv_def pending_hashes_def list_all_iff uncommitted_iff)

lemma queue_inv_create:
  assumes "queue_inv self" and "create_icx_tx create_hash rc self kwargs = Inr (r, self')"
  shows "queue_inv self' \<and> block (block_manager self') = block (block_manager self)
         \<and> confirmed_tx_list self' = confirmed_tx_list self"
  using assms create_icx_tx_cases [OF queue_inv_wf [OF assms(1)], of create_hash rc kwargs]
  by (auto simp: Let_def queue_inv_def pending_hashes_def add_tx_def map_of_dict_set
      uncommitted_iff list_all_iff split: if_splits)

lemma queue_inv_handle:
  "queue_inv self \<Longrightarrow> queue_inv (handle create_hash rc self r)
     \<and> block (block_manager (handle create_hash rc self r)) = block (block_manager self)"
  by (cases r) (auto split: sum.splits dest: queue_inv_create)

lemma queue_inv_run:
  "queue_inv self \<Longrightarrow> queue_inv (run create_hash rc self rs)
     \<and> block (block_manager (run create_hash rc self rs)) = block (block_manager self)"
proof (induction rs arbitrary: self)
  case Nil
  then show ?case by simp
next
  case (Cons r rs)
  from Cons.prems have "queue_inv (handle create_hash rc self r)"
    and "block (block_manager (handle create_hash rc self r)) = block (block_manager self)"
    using queue_inv_handle by blast+
  with Cons.IH [of "handle create_hash rc self r"] show ?case by simp
qed

lemma queue_inv_init: "tx_queue bm = [] \<Longrightarrow> queue_inv (init c bm)"
  by (simp add: queue_inv_def pending_hashes_def init_def)

lemma block_of_task [simp]: "block (block_manager (init c bm)) = block bm"
  by (simp add: init_def)

lemma handle_confirmed_tx_list:
  "confirmed_tx_list (handle create_hash rc self r) = confirmed_tx_list self"
  by (cases r) (auto simp: create_icx_tx_def Let_def split: sum.splits if_splits)

lemma run_confirmed_tx_list:
  "confirmed_tx_list (run create_hash rc self rs) = confirmed_tx_list self"
  by (induction rs arbitrary: self) (simp_all add: handle_confirmed_tx_list)

section \<open>Selection and responses of \<^verbatim>\<open>get_block\<close>\<close>

text \<open>
  Claim C3. \<^verbatim>\<open>get_block\<close> evaluates the selection policy in the order of the
  specification: with an empty hash and height \<open>-1\<close> the response is built from the latest
  block, otherwise with a hash that is not empty from the block looked up by hash, whatever
  the height, and otherwise from the block looked up by height. No other lookup matters:
  two block stores that agree on the selected lookup give the same response.
\<close>

theorem get_block_selection:
  "get_block rc self height hash bf tf =
     (case spec_selection height hash of
        Latest \<Rightarrow>
          block_response rc hash (get_last_block (block (block_manager self)))
            (if get_last_block (block (block_manager self)) = PNone
             then Some (fail_wrong_block_hash rc) else None)
      | ByHash \<Rightarrow>
          block_response rc hash (get_block_by_hash (block (block_manager self)) hash)
            (if get_block_by_hash (block (block_manager self)) hash = PNone
             then Some (fail_wrong_block_hash rc) else None)
      | ByHeight \<Rightarrow>
          block_response rc hash (get_block_by_height (block (block_manager self)) height)
            (if get_block_by_height (block (block_manager self)) height = PNone
             then Some (fail_wrong_block_height rc) else None))
   \<and> (spec_fetch b' height hash = spec_fetch (block (block_manager self)) height hash \<longrightarrow>
        get_block rc (self\<lparr>block_manager := (block_manager self)\<lparr>block := b'\<rparr>\<rparr>) height hash bf tf
          = get_block rc self height hash bf tf)"
  by (simp add: get_block_def spec_selection_def spec_fetch_def Let_def)

theorem get_block_selection_witness:
  "get_block sample_codes sample_task (- 1) [] [] []
     = Inr (0, PStr ''b9'', ''{\"block_hash\": \"b9\", \"height\": 9}'', [])
   \<and> get_block sample_codes sample_task 5 ''0xabc'' [] []
     = Inr (0, PStr ''abc'', ''{\"block_hash\": \"abc\", \"height\": 7}'', [])
   \<and> get_block sample_codes sample_task 5 [] [] []
     = Inr (0, PStr ''b5'', ''{\"block_hash\": \"b5\", \"height\": 5}'', [])
   \<and> get_block sample_codes
        (sample_task\<lparr>block_manager := (block_manager sample_task)
           \<lparr>block := sample_block\<lparr>get_block_by_height := (\<lambda>n. PNone)\<rparr>\<rparr>\<rparr>) 5 ''0xabc'' [] []
     = get_block sample_codes sample_task 5 ''0xabc'' [] []"
  using get_block_selection [of sample_codes sample_task "- 1" "[]" "[]" "[]" sample_block]
    get_block_selection [of sample_codes sample_task 5 "''0xabc''" "[]" "[]"
      "sample_block\<lparr>get_block_by_height := (\<lambda>n. PNone)\<rparr>"]
    get_block_selection [of sample_codes sample_task 5 "[]" "[]" "[]" sample_block]
  by (simp add: spec_selection_def spec_fetch_def block_response_def dumps_str_def
      escape_char_def dumps_int_def str_nat.simps)

text \<open>
  Claim C4. When the selected lookup returns \<^verbatim>\<open>None\<close>, the response is the status
  together with the hash as it was given, the empty string and the empty list; the status is
  \<^verbatim>\<open>fail_wrong_block_hash\<close> for the latest block and for a lookup by hash, and
  \<^verbatim>\<open>fail_wrong_block_height\<close> for a lookup by height. Line 136 tests the status for its
  truth value, so both values have to differ from zero.
\<close>

theorem get_block_not_found:
  assumes "fail_wrong_block_hash rc \<noteq> 0" and "fail_wrong_block_height rc \<noteq> 0"
    and "spec_fetch (block (block_manager self)) height hash = PNone"
  shows "get_block rc self height hash bf tf
           = Inr (spec_fail_code rc (spec_selection height hash), PStr hash, [], [])"
  using assms
  by (simp add: get_block_def spec_selection_def spec_fetch_def spec_fail_code_def
      block_response_def Let_def split: if_splits)

theorem get_block_not_found_witness:
  "get_block sample_codes sample_task 99999 [] [] [] = Inr (- 5, PStr [], [], [])
   \<and> get_block sample_codes sample_task 5 ''0xdead'' [] [] = Inr (- 4, PStr ''0xdead'', [], [])
   \<and> get_block sample_codes
        (sample_task\<lparr>block_manager := (block_manager sample_task)
           \<lparr>block := sample_block\<lparr>get_last_block := PNone\<rparr>\<rparr>\<rparr>) (- 1) [] [] []
       = Inr (- 4, PStr [], [], [])"
  using get_block_not_found [of sample_codes sample_task 99999 "[]" "[]" "[]"]
    get_block_not_found [of sample_codes sample_task 5 "''0xdead''" "[]" "[]"]
    get_block_not_found [of sample_codes
      "sample_task\<lparr>block_manager := (block_manager sample_task)
           \<lparr>block := sample_block\<lparr>get_last_block := PNone\<rparr>\<rparr>\<rparr>" "- 1" "[]" "[]" "[]"]
  by (simp add: spec_selection_def spec_fetch_def spec_fail_code_def)

text \<open>
  Claim C5. When the selected lookup returns a block, a mapping that has the key
  \<^verbatim>\<open>'block_hash'\<close>, the response is \<^verbatim>\<open>success\<close>, the hash stored in the block, the
  block written by \<^verbatim>\<open>json.dumps\<close> and the empty list, for every value of the two
  filters.
\<close>

theorem get_block_found:
  assumes "spec_fetch (block (block_manager self)) height hash = PDict d"
    and "map_of d ''block_hash'' = Some h"
  shows "get_block rc self height hash bf tf = Inr (success rc, h, json_dumps (PDict d), [])"
  using assms
  by (simp add: get_block_def spec_selection_def spec_fetch_def block_response_def Let_def
      split: if_splits)

theorem get_block_found_witness:
  "get_block sample_codes sample_task 5 ''0xabc'' ''hash'' ''signature''
     = Inr (0, PStr ''abc'', ''{\"block_hash\": \"abc\", \"height\": 7}'', [])"
  using get_block_found [of sample_task 5 "''0xabc''"
      "[(''block_hash'', PStr ''abc''), (''height'', PInt 7)]" "PStr ''abc''" sample_codes
      "''hash''" "''signature''"]
  by (simp add: spec_selection_def spec_fetch_def dumps_str_def escape_char_def dumps_int_def
      str_nat.simps)

section \<open>Lookups of results and transactions\<close>

text \<open>
  Claim C6. \<^verbatim>\<open>get_invoke_result\<close> answers \<^verbatim>\<open>fail_tx_not_invoked\<close> with an empty
  mapping exactly when \<^verbatim>\<open>get_txresult\<close> returns \<^verbatim>\<open>None\<close>, and \<^verbatim>\<open>success\<close> with
  the result otherwise. The task is left as it was, and the answer does not depend on the
  transaction queue. The two status values are taken to be different.
\<close>

theorem get_invoke_result_lookup:
  assumes "success rc \<noteq> fail_tx_not_invoked rc"
  shows "(get_invoke_result rc self tx_hash = Inr (fail_tx_not_invoked rc, PDict [])
            \<longleftrightarrow> get_txresult (block (block_manager self)) tx_hash = PNone)
       \<and> (get_txresult (block (block_manager self)) tx_hash \<noteq> PNone \<longrightarrow>
            get_invoke_result rc self tx_hash
              = Inr (success rc, get_txresult (block (block_manager self)) tx_hash))
       \<and> handle create_hash rc self (GetInvokeResult tx_hash) = self
       \<and> get_invoke_result rc (self\<lparr>block_manager := (block_manager self)\<lparr>tx_queue := q\<rparr>\<rparr>) tx_hash
            = get_invoke_result rc self tx_hash"
  using assms by (simp add: get_invoke_result_def Let_def)

theorem get_invoke_result_lookup_witness:
  "get_invoke_result sample_codes
     (sample_task\<lparr>block_manager := (block_manager sample_task)\<lparr>tx_queue := [PDict [(''txHash'', PStr ''p1'')]]\<rparr>\<rparr>)
     ''p1'' = Inr (- 2, PDict [])
   \<and> get_invoke_result sample_codes sample_task ''c0'' = Inr (0, PDict [(''status'', PStr ''0x1'')])"
  using get_invoke_result_lookup [of sample_codes sample_task "''p1''" "\<lambda>data. data" "[PDict [(''txHash'', PStr ''p1'')]]"]
    get_invoke_result_lookup [of sample_codes sample_task "''c0''"]
  by simp

text \<open>
  Claim C7. \<^verbatim>\<open>get_tx_info\<close> answers \<^verbatim>\<open>fail_tx_invalid_hash_not_match\<close> with an
  empty mapping exactly when \<^verbatim>\<open>get_transaction\<close> returns \<^verbatim>\<open>None\<close>, and
  \<^verbatim>\<open>success\<close> with the transaction otherwise. The task is left as it was. The two
  status values are taken to be different.
\<close>

theorem get_tx_info_lookup:
  assumes "success rc \<noteq> fail_tx_invalid_hash_not_match rc"
  shows "(get_tx_info rc self tx_hash = Inr (fail_tx_invalid_hash_not_match rc, PDict [])
            \<longleftrightarrow> get_transaction (block (block_manager self)) tx_hash = PNone)
       \<and> (get_transaction (block (block_manager self)) tx_hash \<noteq> PNone \<longrightarrow>
            get_tx_info rc self tx_hash
              = Inr (success rc, get_transaction (block (block_manager self)) tx_hash))
       \<and> handle create_hash rc self (GetTxInfo tx_hash) = self"
  using assms by (simp add: get_tx_info_def Let_def)

theorem get_tx_info_lookup_witness:
  "get_tx_info sample_codes sample_task ''0xdeadbeef'' = Inr (- 3, PDict [])
   \<and> get_tx_info sample_codes sample_task ''c0'' = Inr (0, PDict [(''from'', PStr ''hx1'')])"
  using get_tx_info_lookup [of sample_codes sample_task "''0xdeadbeef''"]
    get_tx_info_lookup [of sample_codes sample_task "''c0''"]
  by simp

section \<open>The field \<^verbatim>\<open>confirmed_tx_list\<close>\<close>

text \<open>
  Claim C10. \<^verbatim>\<open>confirmed_tx_list\<close> is empty after \<^verbatim>\<open>__init__\<close> and after every
  sequence of requests, and no handler reads it: replacing it changes no response.
\<close>

theorem confirmed_tx_list_dead:
  "confirmed_tx_list (init c bm) = []
   \<and> confirmed_tx_list (run create_hash rc (init c bm) rs) = []
   \<and> map_sum id fst (create_icx_tx create_hash rc (self\<lparr>confirmed_tx_list := l\<rparr>) kwargs)
        = map_sum id fst (create_icx_tx create_hash rc self kwargs)
   \<and> get_invoke_result rc (self\<lparr>confirmed_tx_list := l\<rparr>) tx_hash = get_invoke_result rc self tx_hash
   \<and> get_tx_info rc (self\<lparr>confirmed_tx_list := l\<rparr>) tx_hash = get_tx_info rc self tx_hash
   \<and> get_block rc (self\<lparr>confirmed_tx_list := l\<rparr>) height hash bf tf = get_block rc self height hash bf tf"
  by (simp add: run_confirmed_tx_list init_def create_icx_tx_def get_invoke_result_def
      get_tx_info_def get_block_def Let_def split: sum.splits)

theorem confirmed_tx_list_dead_witness:
  "confirmed_tx_list
     (run (\<lambda>data. data) sample_codes sample_task
        [CreateIcxTx [(''from'', PStr ''hx1'')], GetTxInfo ''c0'', GetBlock 5 [] [] [],
         CreateIcxTx [(''from'', PStr ''hx1'')], GetInvokeResult ''c0'']) = []"
  by (rule confirmed_tx_list_dead
      [where c = PNone and bm = "\<lparr>block = sample_block, tx_queue = []\<rparr>",
        THEN conjunct2, THEN conjunct1])

lemma pending_hashes_add_tx:
  "pending_hashes (self\<lparr>block_manager := add_tx (block_manager self) h kwargs\<rparr>)
     = pending_hashes self @ [Inr (PStr h)]"
  by (simp add: pending_hashes_def add_tx_def map_of_dict_set)

section \<open>Submission of transactions\<close>

text \<open>
  Claim C1. \<^verbatim>\<open>create_icx_tx\<close> computes the hash of the serialized transaction, looks
  for it among the pending entries first and asks the block store only when no pending entry
  has it; a duplicate gives \<^verbatim>\<open>(fail_tx_invalid_duplicated_hash, None)\<close> and leaves the
  task untouched, anything else appends the entry with the hash and the transaction to the
  queue and gives \<^verbatim>\<open>success\<close> with \<open>0x\<close> and the hash. The scan reads
  \<^verbatim>\<open>tx['txHash']\<close> of every entry, so every entry is taken to have that key.
\<close>

theorem create_icx_tx_algorithm:
  assumes "\<forall>tx \<in> set (tx_queue (block_manager self)). \<exists>h. py_getitem tx ''txHash'' = Inr h"
  shows "create_icx_tx create_hash rc self kwargs =
     (let tx_hash = create_hash (encode (json_dumps (PDict kwargs)))
      in if Inr (PStr tx_hash) \<in> set (pending_hashes self)
         then Inr ((fail_tx_invalid_duplicated_hash rc, None), self)
         else if truthy (get_transaction (block (block_manager self)) tx_hash)
         then Inr ((fail_tx_invalid_duplicated_hash rc, None), self)
         else Inr ((success rc, Some (''0x'' @ tx_hash)),
                self\<lparr>block_manager := (block_manager self)
                  \<lparr>tx_queue := tx_queue (block_manager self)
                       @ [PDict (dict_set kwargs ''txHash'' (PStr tx_hash))]\<rparr>\<rparr>))"
  using create_icx_tx_cases [OF assms, of create_hash rc kwargs]
  by (simp add: Let_def generate_tx_hash_def has_committed_def add_tx_def)

theorem create_icx_tx_algorithm_witness:
  "create_icx_tx id sample_codes sample_task [(''from'', PStr ''hx1'')]
     = Inr ((0, Some ''0x{\"from\": \"hx1\"}''),
            sample_task\<lparr>block_manager := (block_manager sample_task)
              \<lparr>tx_queue := [PDict [(''from'', PStr ''hx1''),
                                    (''txHash'', PStr ''{\"from\": \"hx1\"}'')]]\<rparr>\<rparr>)
   \<and> create_icx_tx id sample_codes
        (sample_task\<lparr>block_manager := (block_manager sample_task)
              \<lparr>tx_queue := [PDict [(''from'', PStr ''hx1''),
                                    (''txHash'', PStr ''{\"from\": \"hx1\"}'')]]\<rparr>\<rparr>)
        [(''from'', PStr ''hx1'')]
     = Inr ((- 1, None),
            sample_task\<lparr>block_manager := (block_manager sample_task)
              \<lparr>tx_queue := [PDict [(''from'', PStr ''hx1''),
                                    (''txHash'', PStr ''{\"from\": \"hx1\"}'')]]\<rparr>\<rparr>)
   \<and> create_icx_tx (\<lambda>data. ''c0'') sample_codes sample_task [(''from'', PStr ''hx1'')]
     = Inr ((- 1, None), sample_task)"
  using create_icx_tx_algorithm [of sample_task id sample_codes "[(''from'', PStr ''hx1'')]"]
    create_icx_tx_algorithm [of "sample_task\<lparr>block_manager := (block_manager sample_task)
              \<lparr>tx_queue := [PDict [(''from'', PStr ''hx1''),
                                    (''txHash'', PStr ''{\"from\": \"hx1\"}'')]]\<rparr>\<rparr>"
      id sample_codes "[(''from'', PStr ''hx1'')]"]
    create_icx_tx_algorithm [of sample_task "\<lambda>data. ''c0''" sample_codes "[(''from'', PStr ''hx1'')]"]
  by (simp add: init_def pending_hashes_def dumps_str_def escape_char_def encode_def
      encode_char_def Let_def)

text \<open>
  Claim C2. In every state reached from a task with an empty queue by any sequence of the
  four requests, the pending hashes are pairwise different and none of them is committed in
  the block store, which no handler changes. A transaction whose hash is neither pending nor
  committed, submitted twice, is accepted and then rejected as a duplicate, and the queue then
  holds exactly one entry with its hash.
\<close>

theorem pending_queue_invariant:
  assumes "tx_queue bm = []" and "s = run create_hash rc (init c bm) rs"
    and "h = generate_tx_hash create_hash kwargs"
  shows "distinct (pending_hashes s)
       \<and> (\<forall>x \<in> set (pending_hashes s). \<exists>h'. x = Inr (PStr h') \<and> \<not> has_committed (block bm) h')
       \<and> block (block_manager s) = block bm
       \<and> (Inr (PStr h) \<notin> set (pending_hashes s) \<and> \<not> has_committed (block bm) h \<longrightarrow>
            (\<exists>s1. create_icx_tx create_hash rc s kwargs = Inr ((success rc, Some (''0x'' @ h)), s1)
               \<and> create_icx_tx create_hash rc s1 kwargs
                    = Inr ((fail_tx_invalid_duplicated_hash rc, None), s1)
               \<and> count_list (pending_hashes s1) (Inr (PStr h)) = 1))"
proof -
  have inv: "queue_inv s" and blk: "block (block_manager s) = block bm"
    using queue_inv_run [OF queue_inv_init [OF assms(1)], of create_hash rc c rs] assms(2)
    by simp_all
  have wf: "\<forall>tx \<in> set (tx_queue (block_manager s)). \<exists>h. py_getitem tx ''txHash'' = Inr h"
    using inv by (rule queue_inv_wf)
  have part: "\<forall>x \<in> set (pending_hashes s). \<exists>h'. x = Inr (PStr h') \<and> \<not> has_committed (block bm) h'"
    using inv blk by (simp add: queue_inv_def list_all_iff uncommitted_iff)
  have twice: "\<exists>s1. create_icx_tx create_hash rc s kwargs = Inr ((success rc, Some (''0x'' @ h)), s1)
               \<and> create_icx_tx create_hash rc s1 kwargs
                    = Inr ((fail_tx_invalid_duplicated_hash rc, None), s1)
               \<and> count_list (pending_hashes s1) (Inr (PStr h)) = 1"
    if fresh: "Inr (PStr h) \<notin> set (pending_hashes s)" "\<not> has_committed (block bm) h"
  proof -
    let ?s1 = "s\<lparr>block_manager := add_tx (block_manager s) h kwargs\<rparr>"
    have first: "create_icx_tx create_hash rc s kwargs = Inr ((success rc, Some (''0x'' @ h)), ?s1)"
      using create_icx_tx_cases [OF wf, of create_hash rc kwargs] fresh blk assms(3)
      by (simp add: Let_def)
    have "queue_inv ?s1"
      using queue_inv_create [OF inv first] by simp
    then have wf1: "\<forall>tx \<in> set (tx_queue (block_manager ?s1)). \<exists>h. py_getitem tx ''txHash'' = Inr h"
      by (rule queue_inv_wf)
    have second: "create_icx_tx create_hash rc ?s1 kwargs
                    = Inr ((fail_tx_invalid_duplicated_hash rc, None), ?s1)"
      using create_icx_tx_cases [OF wf1, of create_hash rc kwargs] assms(3)
      by (simp add: Let_def pending_hashes_add_tx)
    have "count_list (pending_hashes ?s1) (Inr (PStr h)) = 1"
      using fresh(1) by (simp add: pending_hashes_add_tx count_list_0_iff)
    with first second show ?thesis by blast
  qed
  from inv blk part twice show ?thesis
    by (simp add: queue_inv_def)
qed

theorem pending_queue_invariant_witness:
  "tx_queue \<lparr>block = sample_block, tx_queue = []\<rparr> = []
   \<and> distinct (pending_hashes (run id sample_codes sample_task
        [CreateIcxTx [(''from'', PStr ''hx1'')], GetTxInfo ''c0'',
         CreateIcxTx [(''from'', PStr ''hx1'')]]))
   \<and> Inr (PStr (generate_tx_hash id [(''from'', PStr ''hx2'')]))
        \<notin> set (pending_hashes (run id sample_codes sample_task
        [CreateIcxTx [(''from'', PStr ''hx1'')], GetTxInfo ''c0'',
         CreateIcxTx [(''from'', PStr ''hx1'')]]))
   \<and> \<not> has_committed sample_block (generate_tx_hash id [(''from'', PStr ''hx2'')])
   \<and> (\<exists>s1. create_icx_tx id sample_codes (run id sample_codes sample_task
        [CreateIcxTx [(''from'', PStr ''hx1'')], GetTxInfo ''c0'',
         CreateIcxTx [(''from'', PStr ''hx1'')]]) [(''from'', PStr ''hx2'')]
          = Inr ((0, Some (''0x'' @ generate_tx_hash id [(''from'', PStr ''hx2'')])), s1)
        \<and> create_icx_tx id sample_codes s1 [(''from'', PStr ''hx2'')] = Inr ((- 1, None), s1)
        \<and> count_list (pending_hashes s1)
             (Inr (PStr (generate_tx_hash id [(''from'', PStr ''hx2'')]))) = 1)"
proof -
  let ?s = "run id sample_codes sample_task
        [CreateIcxTx [(''from'', PStr ''hx1'')], GetTxInfo ''c0'',
         CreateIcxTx [(''from'', PStr ''hx1'')]]"
  have q: "pending_hashes ?s = [Inr (PStr ''{\"from\": \"hx1\"}'')]"
    by (simp add: create_icx_tx_def generate_tx_hash_def init_def pending_hashes_def add_tx_def
        dumps_str_def escape_char_def encode_def encode_char_def Let_def)
  have h: "generate_tx_hash id [(''from'', PStr ''hx2'')] = ''{\"from\": \"hx2\"}''"
    by (simp add: generate_tx_hash_def dumps_str_def escape_char_def encode_def encode_char_def)
  have fresh: "Inr (PStr (generate_tx_hash id [(''from'', PStr ''hx2'')])) \<notin> set (pending_hashes ?s)"
    "\<not> has_committed sample_block (generate_tx_hash id [(''from'', PStr ''hx2'')])"
    unfolding q h by (simp_all add: has_committed_def)
  have empty: "tx_queue \<lparr>block = sample_block, tx_queue = []\<rparr> = []"
    by simp
  from pending_queue_invariant [OF empty refl refl, of id sample_codes PNone
      "[CreateIcxTx [(''from'', PStr ''hx1'')], GetTxInfo ''c0'',
        CreateIcxTx [(''from'', PStr ''hx1'')]]" "[(''from'', PStr ''hx2'')]"] fresh
  show ?thesis
    by simp
qed

text \<open>
  Claim C8, as stated: two transaction mappings with the same field values get the same
  hash. It fails for two mappings that list the same fields in a different order:
  \<^verbatim>\<open>json.dumps\<close> writes the keys in insertion order, the bytes differ, and a hash
  function that tells the two byte strings apart, as the identity does here, gives two
  identifiers; the second submission is accepted.
\<close>

theorem tx_hash_key_order_counterexample:
  "py_dict_eq [(''a'', PInt 1), (''b'', PInt 2)] [(''b'', PInt 2), (''a'', PInt 1)]
   \<and> generate_tx_hash id [(''a'', PInt 1), (''b'', PInt 2)] = ''{\"a\": 1, \"b\": 2}''
   \<and> generate_tx_hash id [(''b'', PInt 2), (''a'', PInt 1)] = ''{\"b\": 2, \"a\": 1}''
   \<and> generate_tx_hash id [(''a'', PInt 1), (''b'', PInt 2)]
        \<noteq> generate_tx_hash id [(''b'', PInt 2), (''a'', PInt 1)]
   \<and> map_sum id fst (create_icx_tx id sample_codes
          (run id sample_codes sample_task [CreateIcxTx [(''a'', PInt 1), (''b'', PInt 2)]])
          [(''b'', PInt 2), (''a'', PInt 1)])
        = Inr (0, Some ''0x{\"b\": 2, \"a\": 1}'')"
  by (simp add: py_dict_eq_def create_icx_tx_def generate_tx_hash_def init_def add_tx_def
      dumps_str_def escape_char_def dumps_int_def str_nat.simps encode_def encode_char_def
      Let_def insert_commute)

text \<open>
  Claim C8, amended: two transaction mappings with the same serialized bytes, that is the
  same fields with the same values in the same order, get the same hash, and
  \<^verbatim>\<open>create_icx_tx\<close> returns the same status and payload for both in every state of the
  task; an accepted submission returns \<open>0x\<close> followed by that hash.
\<close>

theorem tx_hash_deterministic:
  assumes "json_dumps (PDict kwargs1) = json_dumps (PDict kwargs2)"
  shows "generate_tx_hash create_hash kwargs1 = generate_tx_hash create_hash kwargs2
       \<and> map_sum id fst (create_icx_tx create_hash rc self kwargs1)
            = map_sum id fst (create_icx_tx create_hash rc self kwargs2)
       \<and> (create_icx_tx create_hash rc self kwargs1 = Inr ((code, Some payload), self') \<longrightarrow>
            payload = ''0x'' @ generate_tx_hash create_hash kwargs1)"
  using assms
  by (auto simp: create_icx_tx_def generate_tx_hash_def Let_def split: sum.splits if_splits)

theorem tx_hash_deterministic_witness:
  "json_dumps (PDict [(''a'', PInt 1), (''b'', PInt 2)])
     = json_dumps (PDict [(''a'', PInt 1), (''b'', PInt 2)])
   \<and> ''0x{\"a\": 1, \"b\": 2}'' = ''0x'' @ generate_tx_hash id [(''a'', PInt 1), (''b'', PInt 2)]"
proof -
  have first: "create_icx_tx id sample_codes sample_task [(''a'', PInt 1), (''b'', PInt 2)]
      = Inr ((0, Some ''0x{\"a\": 1, \"b\": 2}''),
             sample_task\<lparr>block_manager := add_tx (block_manager sample_task)
               ''{\"a\": 1, \"b\": 2}'' [(''a'', PInt 1), (''b'', PInt 2)]\<rparr>)"
    by (simp add: create_icx_tx_def generate_tx_hash_def init_def dumps_str_def escape_char_def
        dumps_int_def str_nat.simps encode_def encode_char_def Let_def)
  from tx_hash_deterministic [where ?kwargs1.0 = "[(''a'', PInt 1), (''b'', PInt 2)]"
      and ?kwargs2.0 = "[(''a'', PInt 1), (''b'', PInt 2)]" and create_hash = id
      and rc = sample_codes and self = sample_task and code = 0
      and payload = "''0x{\"a\": 1, \"b\": 2}''"
      and self' = "sample_task\<lparr>block_manager := add_tx (block_manager sample_task)
               ''{\"a\": 1, \"b\": 2}'' [(''a'', PInt 1), (''b'', PInt 2)]\<rparr>"] first
  show ?thesis by simp
qed

section \<open>Exceptions\<close>

text \<open>
  Claim C9, as stated: no handler raises, whatever the block store returns. It fails for
  \<^verbatim>\<open>get_block\<close> when the fetched object is a mapping without the key
  \<^verbatim>\<open>'block_hash'\<close>: line 139 raises \<^verbatim>\<open>KeyError\<close>.
\<close>

theorem get_block_key_error_counterexample:
  "get_block sample_codes
     (sample_task\<lparr>block_manager := (block_manager sample_task)
        \<lparr>block := sample_block\<lparr>get_block_by_height := (\<lambda>n. PDict [(''height'', PInt n)])\<rparr>\<rparr>\<rparr>)
     5 [] [] [] = Inl KeyError"
  by (simp add: get_block_def block_response_def init_def)

text \<open>
  Claim C9, amended: in every state reached from a task with an empty queue, each of the four
  handlers returns, provided the object that the selected block lookup returns is
  \<^verbatim>\<open>None\<close> or a mapping with the key \<^verbatim>\<open>'block_hash'\<close>, and the two block failure
  codes differ from zero. The scan of the queue never raises in such a state.
\<close>

theorem handlers_return:
  assumes "tx_queue bm = []" and "self = run create_hash rc (init c bm) rs"
    and "fail_wrong_block_hash rc \<noteq> 0" and "fail_wrong_block_height rc \<noteq> 0"
    and "spec_fetch (block bm) height hash = PNone
         \<or> (\<exists>d h. spec_fetch (block bm) height hash = PDict d \<and> map_of d ''block_hash'' = Some h)"
  shows "(\<exists>r. create_icx_tx create_hash rc self kwargs = Inr r)
       \<and> (\<exists>r. get_invoke_result rc self tx_hash = Inr r)
       \<and> (\<exists>r. get_tx_info rc self tx_hash = Inr r)
       \<and> (\<exists>r. get_block rc self height hash bf tf = Inr r)"
proof -
  have inv: "queue_inv self" and blk: "block (block_manager self) = block bm"
    using queue_inv_run [OF queue_inv_init [OF assms(1)], of create_hash rc c rs] assms(2)
    by simp_all
  have "\<exists>r. create_icx_tx create_hash rc self kwargs = Inr r"
    using create_icx_tx_cases [OF queue_inv_wf [OF inv], of create_hash rc kwargs]
    by (simp add: Let_def)
  moreover have "\<exists>r. get_invoke_result rc self tx_hash = Inr r"
    by (simp add: get_invoke_result_def Let_def)
  moreover have "\<exists>r. get_tx_info rc self tx_hash = Inr r"
    by (simp add: get_tx_info_def Let_def)
  moreover have "\<exists>r. get_block rc self height hash bf tf = Inr r"
    using assms(3-5) blk
    by (auto simp: get_block_def spec_fetch_def spec_selection_def block_response_def Let_def
        split: if_splits)
  ultimately show ?thesis by blast
qed

theorem handlers_return_witness:
  "(\<exists>r. create_icx_tx id sample_codes
          (run id sample_codes sample_task [CreateIcxTx [(''from'', PStr ''hx1'')]])
          [(''from'', PStr ''hx1'')] = Inr r)
   \<and> (\<exists>r. get_block sample_codes
          (run id sample_codes sample_task [CreateIcxTx [(''from'', PStr ''hx1'')]])
          5 [] [] [] = Inr r)
   \<and> (\<exists>r. get_block sample_codes
          (run id sample_codes sample_task [CreateIcxTx [(''from'', PStr ''hx1'')]])
          6 [] [] [] = Inr r)"
proof -
  have empty: "tx_queue \<lparr>block = sample_block, tx_queue = []\<rparr> = []"
    by simp
  have codes: "fail_wrong_block_hash sample_codes \<noteq> 0" "fail_wrong_block_height sample_codes \<noteq> 0"
    by simp_all
  have found: "spec_fetch (block \<lparr>block = sample_block, tx_queue = []\<rparr>) 5 [] = PNone
         \<or> (\<exists>d h. spec_fetch (block \<lparr>block = sample_block, tx_queue = []\<rparr>) 5 [] = PDict d
               \<and> map_of d ''block_hash'' = Some h)"
    by (simp add: spec_fetch_def spec_selection_def)
  have missing: "spec_fetch (block \<lparr>block = sample_block, tx_queue = []\<rparr>) 6 [] = PNone
         \<or> (\<exists>d h. spec_fetch (block \<lparr>block = sample_block, tx_queue = []\<rparr>) 6 [] = PDict d
               \<and> map_of d ''block_hash'' = Some h)"
    by (simp add: spec_fetch_def spec_selection_def)
  from handlers_return [OF empty refl codes found, of id PNone
      "[CreateIcxTx [(''from'', PStr ''hx1'')]]" "[(''from'', PStr ''hx1'')]"]
    handlers_return [OF empty refl codes missing, of id PNone
      "[CreateIcxTx [(''from'', PStr ''hx1'')]]" "[(''from'', PStr ''hx1'')]"]
  show ?thesis by blast
qed

end
